theory Spec2Isabelle
  imports Complex_Main
begin

section \<open>Numbers, errors and records\<close>

text \<open>
  Metric values and constraint bounds are Python numbers (ints in the configuration,
  floats in the measurements). They are modelled as exact rationals: the finite values,
  with true division \<open>/\<close> exact. Division by zero raises in Python, so every division
  of the source is guarded in the model and the raise is a value of \<open>py_error\<close>.
\<close>

datatype py_error = IndexError | ZeroDivisionError

text \<open>
  Modelled from the spec: the base class \<open>Record\<close> (module
  \<open>model_analyzer.record.record\<close>) that \<open>PerfLatencyAvg\<close> extends. Its
  constructor stores a value and a timestamp, \<open>value()\<close> reads the value back, and
  every record class carries its metric tag as the class attribute \<open>tag\<close>.
\<close>

record metric_record =
  tag :: string
  "value" :: rat
  timestamp :: rat

subsection \<open>\<open>perf_latency_avg.py\<close>: class \<open>PerfLatencyAvg\<close>\<close>

text \<open>\<open>PerfLatencyAvg(value, timestamp=0)\<close>; the class attribute is \<open>"perf_latency_avg"\<close>.\<close>

definition PerfLatencyAvg :: "rat \<Rightarrow> rat \<Rightarrow> metric_record" where
  "PerfLatencyAvg v t = \<lparr>tag = ''perf_latency_avg'', value = v, timestamp = t\<rparr>"

text \<open>
  \<open>calculate_percentage_gain(self, other)\<close> returns
  \<open>((other.value() - self.value()) / self.value()) * 100\<close>; the division raises
  \<open>ZeroDivisionError\<close> when \<open>self.value()\<close> is zero.
\<close>

definition calculate_percentage_gain :: "metric_record \<Rightarrow> metric_record \<Rightarrow> py_error + rat" where
  "calculate_percentage_gain self other =
     (if value self = 0 then Inl ZeroDivisionError
      else Inr (((value other - value self) / value self) * 100))"









section \<open>\<open>constraint_manager.py\<close>: class \<open>ConstraintManager\<close>\<close>

text \<open>
  A constraint is a dict read at the keys \<open>'min'\<close> and \<open>'max'\<close>; the constraints of one
  model are a dict from metric tags to constraints, or \<open>None\<close>; the first argument of both
  functions is a list of those, indexed by the position of the model in the measurement.
  The second argument is only read through \<open>run_config_measurement.data()\<close>, a list with
  one list of metric records per model, which is what the model takes.
\<close>

type_synonym constraint = "string \<rightharpoonup> rat"

type_synonym model_constraints = "string \<rightharpoonup> constraint"

text \<open>
  Both loops start with the same three lines: \<open>constraints[i] is not None and
  type(metric).tag in constraints[i]\<close>, then \<open>constraint = constraints[i][type(metric).tag]\<close>.
  Indexing the list past its end raises \<open>IndexError\<close>; the result \<open>Inr None\<close> is the
  case where the condition is false and the metric is skipped.
\<close>

definition lookup_constraint ::
  "model_constraints option list \<Rightarrow> nat \<Rightarrow> metric_record \<Rightarrow> py_error + constraint option" where
  "lookup_constraint constraints i metric =
     (if i < length constraints
      then Inr (case constraints ! i of None \<Rightarrow> None | Some ci \<Rightarrow> ci (tag metric))
      else Inl IndexError)"

text \<open>
  The inner loop of \<open>satisfies_constraints\<close>. \<open>Inr False\<close> is \<open>return False\<close>;
  \<open>Inr True\<close> is the loop running to its end without returning.
\<close>

fun satisfies_metrics ::
  "model_constraints option list \<Rightarrow> nat \<Rightarrow> metric_record list \<Rightarrow> py_error + bool" where
  "satisfies_metrics constraints i [] = Inr True"
| "satisfies_metrics constraints i (metric # rest) =
     (case lookup_constraint constraints i metric of
        Inl e \<Rightarrow> Inl e
      | Inr None \<Rightarrow> satisfies_metrics constraints i rest
      | Inr (Some constraint) \<Rightarrow>
          if (case constraint ''min'' of None \<Rightarrow> False | Some lo \<Rightarrow> value metric < lo)
          then Inr False
          else if (case constraint ''max'' of None \<Rightarrow> False | Some hi \<Rightarrow> value metric > hi)
          then Inr False
          else satisfies_metrics constraints i rest)"

text \<open>The outer loop, \<open>for (i, model_metrics) in enumerate(run_config_measurement.data())\<close>.\<close>

fun satisfies_models ::
  "model_constraints option list \<Rightarrow> nat \<Rightarrow> metric_record list list \<Rightarrow> py_error + bool" where
  "satisfies_models constraints i [] = Inr True"
| "satisfies_models constraints i (model_metrics # rest) =
     (case satisfies_metrics constraints i model_metrics of
        Inl e \<Rightarrow> Inl e
      | Inr False \<Rightarrow> Inr False
      | Inr True \<Rightarrow> satisfies_models constraints (Suc i) rest)"

text \<open>\<open>if constraints:\<close> is false for the empty list, and the function returns \<open>True\<close>.\<close>

definition satisfies_constraints ::
  "model_constraints option list \<Rightarrow> metric_record list list \<Rightarrow> py_error + bool" where
  "satisfies_constraints constraints data =
     (if constraints \<noteq> [] then satisfies_models constraints 0 data else Inr True)"






subsection \<open>The contract of the constraint evaluator, in the specification's words\<close>

text \<open>
  The constraint declared for a metric at entity position \<open>i\<close>: the entry of
  \<open>constraints[i]\<close> under the metric's tag, when there is one.
\<close>

definition declared ::
  "model_constraints option list \<Rightarrow> nat \<Rightarrow> metric_record \<Rightarrow> constraint option" where
  "declared constraints i metric =
     (if i < length constraints
      then (case constraints ! i of None \<Rightarrow> None | Some ci \<Rightarrow> ci (tag metric))
      else None)"



text \<open>The value lies within \<open>[min, max]\<close>, either bound optional.\<close>

definition within_bounds :: "constraint \<Rightarrow> rat \<Rightarrow> bool" where
  "within_bounds c v =
     ((case c ''min'' of None \<Rightarrow> True | Some lo \<Rightarrow> lo \<le> v) \<and>
      (case c ''max'' of None \<Rightarrow> True | Some hi \<Rightarrow> v \<le> hi))"







text \<open>
  A constraint \<open>c'\<close> is at least as wide as \<open>c\<close>: its min is absent or not above the min
  of \<open>c\<close>, and its max is absent or not below the max of \<open>c\<close>.
\<close>

definition wider :: "constraint \<Rightarrow> constraint \<Rightarrow> bool" where
  "wider c c' =
     ((case c' ''min'' of None \<Rightarrow> True
        | Some lo' \<Rightarrow> (case c ''min'' of None \<Rightarrow> False | Some lo \<Rightarrow> lo' \<le> lo)) \<and>
      (case c' ''max'' of None \<Rightarrow> True
        | Some hi' \<Rightarrow> (case c ''max'' of None \<Rightarrow> False | Some hi \<Rightarrow> hi \<le> hi')))"


section \<open>The quick search generator: value resolution and composite concurrency\<close>

text \<open>
  The generator, its dimensions and its coordinates live in
  \<open>model_analyzer.config.generate\<close>, of which only the test
  \<open>tests/test_quick_run_config_generator.py\<close> is at hand. The definitions of this
  section follow the specification, and the expectations of the test are recorded next
  to them.
\<close>

datatype law = Linear | Exponential

record Dimension =
  name :: string
  law :: law
  minBound :: nat

text \<open>
  Modelled from the spec: the value resolution of \<open>SearchDimension\<close> (Coordinate
  \<open>\<times>\<close> Dimension \<open>\<rightarrow>\<close> concrete value). A slot is bounded below by \<open>minBound\<close>;
  an Exponential slot \<open>v\<close> resolves to \<open>2^v\<close>, a Linear slot to the slot's value
  plus the linear offset. The specification leaves the offset open ("instance count 7
  (or 8 depending on configured zero/one-based linear offset)"); the test in the
  repository fixes it: \<open>test_get_next_run_config\<close> expects instance count 8 at slot 7,
  and the multi-model and ensemble tests expect 3 at slot 2 and 6 at slot 5.
\<close>

definition linear_offset :: nat where
  "linear_offset = 1"

definition resolve :: "Dimension \<Rightarrow> nat \<Rightarrow> nat" where
  "resolve d slot =
     (case law d of
        Linear \<Rightarrow> max slot (minBound d) + linear_offset
      | Exponential \<Rightarrow> 2 ^ max slot (minBound d))"

text \<open>
  Modelled from the spec: \<open>valuesFor(coordinate)\<close> of the DimensionSet, for the ordered
  dimensions of one entity: each slot resolved under its dimension's name; \<open>None\<close> is
  the \<open>DimensionError\<close> of a coordinate whose length is not the slot count.
\<close>

definition values_for :: "Dimension list \<Rightarrow> nat list \<Rightarrow> (string \<times> nat) list option" where
  "values_for dims coordinate =
     (if length coordinate \<noteq> length dims then None
      else Some (map2 (\<lambda>d slot. (name d, resolve d slot)) dims coordinate))"

text \<open>
  \<open>test_get_next_run_config\<close>: the two dimensions its coordinate \<open>[5, 7]\<close>
  indexes (both built with the default minimum 0), and the values it asserts:
  \<open>maxBatchSize\<close> 32, instance group \<open>count\<close> 8, \<open>concurrency-range\<close> 512.
\<close>

definition test_dimensions :: "Dimension list" where
  "test_dimensions =
     [\<lparr>name = ''max_batch_size'', law = Exponential, minBound = 0\<rparr>,
      \<lparr>name = ''instance_count'', law = Linear, minBound = 0\<rparr>]"

definition test_expected_values :: "(string \<times> nat) list" where
  "test_expected_values = [(''max_batch_size'', 32), (''instance_count'', 8)]"

definition test_expected_concurrency :: nat where
  "test_expected_concurrency = 512"

text \<open>
  Modelled from the spec: the concurrency overrides of GlobalBounds (\<open>None\<close>: not
  configured) and the fixed multiplier 2 of
  \<open>concurrency = batchSize \<times> instanceCount \<times> multiplier\<close>.
\<close>

record GlobalBounds =
  max_concurrency :: "nat option"
  min_concurrency :: "nat option"

definition concurrency_multiplier :: nat where
  "concurrency_multiplier = 2"

definition sub_entity_concurrency :: "nat \<times> nat \<Rightarrow> nat" where
  "sub_entity_concurrency sub = fst sub * snd sub * concurrency_multiplier"

text \<open>
  Modelled from the spec: the composite-entity concurrency reconciliation of the quick
  generator. The concurrency of a composite is the minimum of its sub-entities' computed
  concurrencies, unless a max or min concurrency override is configured, in which case
  the override value is used verbatim; where both are configured the min takes
  precedence, as the GlobalBounds invariant has it. A sub-entity is given by its
  (batch size, instance count); a composite without stages and without override has no
  concurrency (\<open>None\<close>).
\<close>

definition composite_concurrency :: "GlobalBounds \<Rightarrow> (nat \<times> nat) list \<Rightarrow> nat option" where
  "composite_concurrency bounds subs =
     (case min_concurrency bounds of
        Some v \<Rightarrow> Some v
      | None \<Rightarrow>
          (case max_concurrency bounds of
             Some v \<Rightarrow> Some v
           | None \<Rightarrow>
               if subs = [] then None
               else Some (min_list (map sub_entity_concurrency subs))))"


section \<open>Properties of \<open>PerfLatencyAvg\<close>\<close>

text \<open>
  Claim C4, as the code has it. With the receiver as the candidate and the argument as
  the baseline, \<open>calculate_percentage_gain\<close> computes
  \<open>((baseline - candidate) / candidate) * 100\<close> whenever the candidate's value is not
  zero: the difference is divided by the candidate's value, not by the baseline's. For a
  candidate of positive latency the result is positive exactly when the candidate's
  latency is lower than the baseline's.
\<close>

theorem percentage_gain_candidate_denominator:
  "(value candidate \<noteq> 0 \<longrightarrow>
      calculate_percentage_gain candidate baseline
        = Inr (((value baseline - value candidate) / value candidate) * 100)) \<and>
   (0 < value candidate \<longrightarrow>
      (\<exists>g. calculate_percentage_gain candidate baseline = Inr g \<and>
           (0 < g \<longleftrightarrow> value candidate < value baseline)))"
  by (simp add: calculate_percentage_gain_def zero_less_divide_iff)

theorem percentage_gain_candidate_denominator_witness:
  "0 < value (PerfLatencyAvg 5 0) \<and>
   calculate_percentage_gain (PerfLatencyAvg 5 0) (PerfLatencyAvg 10 0) = Inr 100"
  using percentage_gain_candidate_denominator [of "PerfLatencyAvg 5 0" "PerfLatencyAvg 10 0"]
  by (simp add: PerfLatencyAvg_def)

text \<open>
  The formula \<open>((b - c) / b) * 100\<close> of the claim is the result of neither call: for a
  baseline of 10 and a candidate of 5 it gives 50, while the baseline's method returns
  -50 and the candidate's method returns 100.
\<close>

theorem percentage_gain_baseline_formula_counterexample:
  "calculate_percentage_gain (PerfLatencyAvg 10 0) (PerfLatencyAvg 5 0)
     \<noteq> Inr (((value (PerfLatencyAvg 10 0) - value (PerfLatencyAvg 5 0))
               / value (PerfLatencyAvg 10 0)) * 100) \<and>
   calculate_percentage_gain (PerfLatencyAvg 5 0) (PerfLatencyAvg 10 0)
     \<noteq> Inr (((value (PerfLatencyAvg 10 0) - value (PerfLatencyAvg 5 0))
               / value (PerfLatencyAvg 10 0)) * 100)"
  by (simp add: calculate_percentage_gain_def PerfLatencyAvg_def)






section \<open>Properties of \<open>ConstraintManager\<close>\<close>

subsection \<open>The shared lookup and the loops of \<open>satisfies_constraints\<close>\<close>

lemma lookup_constraint_declared:
  "i < length cs \<Longrightarrow> lookup_constraint cs i m = Inr (declared cs i m)"
  by (simp add: lookup_constraint_def declared_def)

lemma lookup_constraint_out_of_range:
  "\<not> i < length cs \<Longrightarrow> lookup_constraint cs i m = Inl IndexError"
  by (simp add: lookup_constraint_def)


lemma satisfies_metrics_in_range:
  "i < length cs \<Longrightarrow>
   satisfies_metrics cs i ms =
     Inr (list_all (\<lambda>m. case declared cs i m of None \<Rightarrow> True
                          | Some c \<Rightarrow> within_bounds c (value m)) ms)"
proof (induction ms)
  case Nil
  then show ?case by simp
next
  case (Cons m ms)
  then show ?case
    by (auto simp: lookup_constraint_declared within_bounds_def not_less
        split: option.splits)
qed

lemma satisfies_metrics_True_iff:
  "satisfies_metrics cs i ms = Inr True \<longleftrightarrow>
     ms = [] \<or> (i < length cs \<and>
       list_all (\<lambda>m. case declared cs i m of None \<Rightarrow> True
                       | Some c \<Rightarrow> within_bounds c (value m)) ms)"
proof (cases "i < length cs")
  case True
  then show ?thesis
    by (cases ms) (simp_all add: satisfies_metrics_in_range del: satisfies_metrics.simps)
next
  case False
  then show ?thesis by (cases ms) (simp_all add: lookup_constraint_out_of_range)
qed

lemma satisfies_models_True_iff:
  "satisfies_models cs i data = Inr True \<longleftrightarrow>
     list_all (\<lambda>(j, ms). satisfies_metrics cs j ms = Inr True) (enumerate i data)"
proof (induction data arbitrary: i)
  case Nil
  then show ?case by simp
next
  case (Cons ms data)
  show ?case
  proof (cases "satisfies_metrics cs i ms")
    case (Inl e)
    then show ?thesis by simp
  next
    case (Inr b)
    then show ?thesis using Cons.IH [of "Suc i"] by (cases b) simp_all
  qed
qed






text \<open>
  A non-empty constraints list that is shorter than the measurement is indexed past its
  end as soon as an uncovered entity has a metric.
\<close>

lemma satisfies_constraints_short_list:
  "satisfies_constraints [None] [[], [m]] = Inl IndexError"
  by (simp add: satisfies_constraints_def lookup_constraint_def)




subsection \<open>Widening a bound\<close>

lemma within_bounds_wider: "within_bounds c v \<Longrightarrow> wider c c' \<Longrightarrow> within_bounds c' v"
  by (auto simp: within_bounds_def wider_def split: option.splits)

lemma declared_update:
  "i < length cs \<Longrightarrow>
   declared (cs[i := Some (ci(t \<mapsto> c'))]) j m =
     (if j = i then (if tag m = t then Some c' else ci (tag m)) else declared cs j m)"
  by (simp add: declared_def)

lemma satisfies_metrics_widening:
  assumes "satisfies_metrics cs j ms = Inr True"
    and "i < length cs" and "cs ! i = Some ci" and "ci t = Some c" and "wider c c'"
  shows "satisfies_metrics (cs[i := Some (ci(t \<mapsto> c'))]) j ms = Inr True"
proof (cases "ms = []")
  case True
  then show ?thesis by simp
next
  case False
  with assms(1) have j: "j < length cs"
    and ok: "list_all (\<lambda>m. case declared cs j m of None \<Rightarrow> True
                       | Some c \<Rightarrow> within_bounds c (value m)) ms"
    by (simp_all add: satisfies_metrics_True_iff)
  have "case declared (cs[i := Some (ci(t \<mapsto> c'))]) j m of None \<Rightarrow> True
          | Some c \<Rightarrow> within_bounds c (value m)" if "m \<in> set ms" for m
  proof -
    from ok that have m: "case declared cs j m of None \<Rightarrow> True
                       | Some c \<Rightarrow> within_bounds c (value m)"
      by (simp add: list_all_iff)
    show ?thesis
    proof (cases "j = i \<and> tag m = t")
      case True
      with m assms(2-4) have "within_bounds c (value m)" by (simp add: declared_def)
      then have "within_bounds c' (value m)" using assms(5) by (rule within_bounds_wider)
      with True assms(2) show ?thesis by (simp add: declared_update)
    next
      case False
      have "declared (cs[i := Some (ci(t \<mapsto> c'))]) j m = declared cs j m"
      proof (cases "j = i")
        case True
        with False assms(2,3) show ?thesis by (simp add: declared_def)
      next
        case False
        then show ?thesis by (simp add: declared_def)
      qed
      with m show ?thesis by simp
    qed
  qed
  with j show ?thesis
    by (simp add: satisfies_metrics_True_iff list_all_iff)
qed

text \<open>
  Claim C7. When \<open>satisfies_constraints\<close> returns \<open>True\<close> for a constraints list and
  a measurement, it still returns \<open>True\<close> after the constraint declared for any one
  metric tag of any one entity is replaced by a wider one: one whose min is smaller or
  absent and whose max is larger or absent.
\<close>

theorem satisfies_constraints_widening:
  assumes "satisfies_constraints cs data = Inr True"
    and "i < length cs" and "cs ! i = Some ci" and "ci t = Some c" and "wider c c'"
  shows "satisfies_constraints (cs[i := Some (ci(t \<mapsto> c'))]) data = Inr True"
proof -
  from assms(2) have ne: "cs \<noteq> []" by auto
  with assms(1) have "satisfies_models cs 0 data = Inr True"
    by (simp add: satisfies_constraints_def)
  then have "list_all (\<lambda>(j, ms). satisfies_metrics cs j ms = Inr True) (enumerate 0 data)"
    by (simp add: satisfies_models_True_iff)
  then have "list_all (\<lambda>(j, ms).
      satisfies_metrics (cs[i := Some (ci(t \<mapsto> c'))]) j ms = Inr True) (enumerate 0 data)"
    using satisfies_metrics_widening [OF _ assms(2-5)]
    by (auto simp: list_all_iff)
  then have "satisfies_models (cs[i := Some (ci(t \<mapsto> c'))]) 0 data = Inr True"
    by (simp add: satisfies_models_True_iff)
  with ne show ?thesis by (simp add: satisfies_constraints_def)
qed

theorem satisfies_constraints_widening_witness:
  "satisfies_constraints
     [Some [''perf_latency_avg'' \<mapsto> [''min'' \<mapsto> 10, ''max'' \<mapsto> 100]]]
     [[PerfLatencyAvg 50 0]] = Inr True \<and>
   wider [''min'' \<mapsto> 10, ''max'' \<mapsto> 100] [''max'' \<mapsto> 200] \<and>
   satisfies_constraints
     ([Some [''perf_latency_avg'' \<mapsto> [''min'' \<mapsto> 10, ''max'' \<mapsto> 100]]]
        [0 := Some ([''perf_latency_avg'' \<mapsto> [''min'' \<mapsto> 10, ''max'' \<mapsto> 100]]
                      (''perf_latency_avg'' \<mapsto> [''max'' \<mapsto> 200]))])
     [[PerfLatencyAvg 50 0]] = Inr True"
proof -
  let ?c = "[''min'' \<mapsto> 10, ''max'' \<mapsto> (100::rat)]"
  let ?ci = "[''perf_latency_avg'' \<mapsto> ?c]"
  have 1: "satisfies_constraints [Some ?ci] [[PerfLatencyAvg 50 0]] = Inr True"
    by (simp add: satisfies_constraints_def lookup_constraint_def PerfLatencyAvg_def)
  have 2: "(0::nat) < length [Some ?ci]" by simp
  have 3: "[Some ?ci] ! 0 = Some ?ci" by simp
  have 4: "?ci ''perf_latency_avg'' = Some ?c" by simp
  have 5: "wider ?c [''max'' \<mapsto> 200]" by (simp add: wider_def)
  from satisfies_constraints_widening [OF 1 2 3 4 5] 1 5 show ?thesis by blast
qed


subsection \<open>The loops of \<open>constraint_failure_percentage\<close>\<close>








subsection \<open>The sign of the score\<close>











section \<open>Properties of the value resolution and of the composite concurrency\<close>

text \<open>The resolution reproduces the values \<open>test_get_next_run_config\<close> asserts.\<close>

lemma resolve_reproduces_test:
  "values_for test_dimensions [5, 7] = Some test_expected_values \<and>
   (case values_for test_dimensions [5, 7] of
      Some [(_, bs), (_, ic)] \<Rightarrow> sub_entity_concurrency (bs, ic) = test_expected_concurrency
    | _ \<Rightarrow> False)"
  by (simp add: values_for_def test_dimensions_def test_expected_values_def resolve_def
      linear_offset_def sub_entity_concurrency_def concurrency_multiplier_def
      test_expected_concurrency_def)

text \<open>
  Claim C5. With no concurrency override configured, the concurrency of a composite
  entity is the minimum of its sub-entities' computed concurrencies, each being batch
  size \<open>\<times>\<close> instance count \<open>\<times>\<close> 2; with a max-concurrency override or a
  min-concurrency override configured it is the override value, whatever the
  sub-entities' values.
\<close>

theorem composite_concurrency_min_or_override:
  "(subs \<noteq> [] \<longrightarrow>
      composite_concurrency \<lparr>max_concurrency = None, min_concurrency = None\<rparr> subs
        = Some (Min (sub_entity_concurrency ` set subs))) \<and>
   composite_concurrency \<lparr>max_concurrency = Some v, min_concurrency = None\<rparr> subs = Some v \<and>
   composite_concurrency \<lparr>max_concurrency = None, min_concurrency = Some v\<rparr> subs = Some v \<and>
   sub_entity_concurrency (bs, ic) = bs * ic * 2"
  by (simp add: composite_concurrency_def min_list_Min sub_entity_concurrency_def
      concurrency_multiplier_def)

theorem composite_concurrency_min_or_override_witness:
  "composite_concurrency \<lparr>max_concurrency = None, min_concurrency = None\<rparr> [(2, 3), (16, 6)]
     = Some 12 \<and>
   composite_concurrency \<lparr>max_concurrency = Some 8, min_concurrency = None\<rparr> [(2, 3), (16, 6)]
     = Some 8 \<and>
   composite_concurrency \<lparr>max_concurrency = None, min_concurrency = Some 16\<rparr> [(2, 3), (16, 6)]
     = Some 16 \<and>
   sub_entity_concurrency (2, 3) = 12 \<and> sub_entity_concurrency (16, 6) = 192"
  using composite_concurrency_min_or_override [of "[(2, 3), (16, 6)]" 8 2 3]
    composite_concurrency_min_or_override [of "[(2, 3), (16, 6)]" 16 16 6]
  by (simp add: sub_entity_concurrency_def concurrency_multiplier_def)




end
